theory Spec2Isabelle
  imports Main
begin

section \<open>Python values and exceptions\<close>

text \<open>
  The exceptions that the functions of \<^verbatim>\<open>texbuild/arbitrary.py\<close> and
  \<^verbatim>\<open>texbuild/build.py\<close> raise, catch or let pass.
  \<open>DirectoryNotEmpty\<close> is the \<open>OSError\<close> (ENOTEMPTY) of \<open>os.rmdir\<close>.
\<close>

datatype py_error =
    FileExistsError
  | FileNotFoundError
  | NotADirectoryError
  | IsADirectoryError
  | PermissionError
  | DirectoryNotEmpty
  | SameFileError
  | TypeError
  | CalledProcessError int
  | KeyboardInterrupt

text \<open>
  The optional arguments of \<open>build_document\<close> are dynamically typed: \<open>None\<close>, a
  string or a list of strings can arrive in each of them.
\<close>

datatype pyval = PNone | PStr string | PList "string list"

text \<open>\<^verbatim>\<open>default(x, default_value)\<close> of arbitrary.py.\<close>

definition default_val :: "pyval \<Rightarrow> pyval \<Rightarrow> pyval" where
  "default_val x default_value = (if x = PNone then default_value else x)"

section \<open>Path arithmetic\<close>

text \<open>
  \<^verbatim>\<open>os.path.join(a, b)\<close> of the POSIX flavour (posixpath): an absolute \<open>b\<close> replaces
  \<open>a\<close>; otherwise \<open>b\<close> is appended, with a separator unless \<open>a\<close> is empty or
  already ends with one.
\<close>

definition path_join :: "string \<Rightarrow> string \<Rightarrow> string" where
  "path_join a b =
     (if b \<noteq> [] \<and> hd b = CHR ''/'' then b
      else if a = [] \<or> last a = CHR ''/'' then a @ b
      else a @ ''/'' @ b)"

text \<open>The class \<open>TexBuild\<close>: its only field is the project root.\<close>

record texbuild =
  tex_root :: string

definition tex_src :: "texbuild \<Rightarrow> string" where
  "tex_src tb = path_join (tex_root tb) ''src''"

definition tex_bld :: "texbuild \<Rightarrow> string" where
  "tex_bld tb = path_join (tex_root tb) ''bld''"

definition tex_dst :: "texbuild \<Rightarrow> string" where
  "tex_dst tb = path_join (tex_root tb) ''dst''"

text \<open>The separator that \<open>path_join\<close> inserts after a first argument \<open>a\<close>.\<close>

definition join_sep :: "string \<Rightarrow> string" where
  "join_sep a = (if a = [] \<or> last a = CHR ''/'' then [] else ''/'')"

section \<open>The file system and the process state\<close>

text \<open>
  The operating system is not part of the repository. Its state is modelled as far as the
  code depends on it: a file system without links (a finite table from canonical absolute
  paths to directories and regular files with their contents), the working directory of the
  process, what was printed, and the external processes that were started, each with its
  command line and its working directory.
\<close>

datatype node = Dir | File string

type_synonym path = "string list"

type_synonym filesystem = "(path \<times> node) list"

record world =
  fs :: filesystem
  cwd :: path
  console :: "string list"
  procs :: "(string list \<times> path) list"

text \<open>The root directory always exists; a later binding of the table is shadowed.\<close>

definition fs_lookup :: "filesystem \<Rightarrow> path \<Rightarrow> node option" where
  "fs_lookup f p = (if p = [] then Some Dir else map_of f p)"

definition fs_remove :: "path \<Rightarrow> filesystem \<Rightarrow> filesystem" where
  "fs_remove p f = filter (\<lambda>kv. fst kv \<noteq> p) f"

definition is_under :: "path \<Rightarrow> path \<Rightarrow> bool" where
  "is_under p q = (length p < length q \<and> take (length p) q = p)"

definition has_children :: "filesystem \<Rightarrow> path \<Rightarrow> bool" where
  "has_children f p = list_ex (is_under p) (map fst f)"

text \<open>The entries below a directory, parents before their children.\<close>

definition entries_under :: "filesystem \<Rightarrow> path \<Rightarrow> path list" where
  "entries_under f p = sort_key length (filter (is_under p) (remdups (map fst f)))"

text \<open>\<^verbatim>\<open>s.split('/')\<close>.\<close>

fun split_sep :: "string \<Rightarrow> string list" where
  "split_sep [] = [[]]"
| "split_sep (c # cs) =
     (if c = CHR ''/'' then [] # split_sep cs
      else (case split_sep cs of [] \<Rightarrow> [[c]] | x # xs \<Rightarrow> (c # x) # xs))"

text \<open>
  Path resolution as the kernel does it on a file system without links, one component at a
  time: empty components and \<open>.\<close> stay, \<open>..\<close> goes to the parent (the parent of the
  root is the root). A relative path starts from the working directory.
\<close>

definition walk :: "path \<Rightarrow> string \<Rightarrow> path" where
  "walk acc c =
     (if c = [] \<or> c = ''.'' then acc else if c = ''..'' then butlast acc else acc @ [c])"

definition resolve :: "path \<Rightarrow> string \<Rightarrow> path" where
  "resolve wd s = foldl walk (if s \<noteq> [] \<and> hd s = CHR ''/'' then [] else wd) (split_sep s)"

text \<open>The absolute path name of a canonical path, as \<^verbatim>\<open>os.getcwd()\<close> returns it.\<close>

definition path_str :: "path \<Rightarrow> string" where
  "path_str p = (if p = [] then ''/'' else concat (map (\<lambda>c. CHR ''/'' # c) p))"

text \<open>
  The result of a statement: the exception it raised or the value it returned, and
  the state it left behind in either case.
\<close>

type_synonym 'a result = "(py_error + 'a) \<times> world"

definition and_then :: "'a result \<Rightarrow> ('a \<Rightarrow> world \<Rightarrow> 'b result) \<Rightarrow> 'b result" where
  "and_then r k = (case r of (Inl e, w) \<Rightarrow> (Inl e, w) | (Inr x, w) \<Rightarrow> k x w)"

subsection \<open>Library calls\<close>

text \<open>\<^verbatim>\<open>os.mkdir(d)\<close>.\<close>

definition os_mkdir :: "string \<Rightarrow> world \<Rightarrow> unit result" where
  "os_mkdir d w =
     (let p = resolve (cwd w) d in
      if d = [] then (Inl FileNotFoundError, w)
      else if fs_lookup (fs w) p \<noteq> None then (Inl FileExistsError, w)
      else (case fs_lookup (fs w) (butlast p) of
              None \<Rightarrow> (Inl FileNotFoundError, w)
            | Some (File c) \<Rightarrow> (Inl NotADirectoryError, w)
            | Some Dir \<Rightarrow> (Inr (), w\<lparr>fs := (p, Dir) # fs w\<rparr>)))"

text \<open>
  \<^verbatim>\<open>os.makedirs(d, exist_ok=...)\<close>: the missing ancestors are created from the root
  down, then the directory itself.
\<close>

fun ensure_dirs :: "path list \<Rightarrow> filesystem \<Rightarrow> py_error + filesystem" where
  "ensure_dirs [] f = Inr f"
| "ensure_dirs (p # ps) f =
     (case fs_lookup f p of
        None \<Rightarrow> ensure_dirs ps ((p, Dir) # f)
      | Some Dir \<Rightarrow> ensure_dirs ps f
      | Some (File c) \<Rightarrow> Inl NotADirectoryError)"

definition os_makedirs :: "string \<Rightarrow> bool \<Rightarrow> world \<Rightarrow> unit result" where
  "os_makedirs d exist_ok w =
     (let p = resolve (cwd w) d in
      if d = [] then (Inl FileNotFoundError, w)
      else (case fs_lookup (fs w) p of
              Some Dir \<Rightarrow> if exist_ok then (Inr (), w) else (Inl FileExistsError, w)
            | Some (File c) \<Rightarrow> (Inl FileExistsError, w)
            | None \<Rightarrow>
                (case ensure_dirs (map (\<lambda>n. take n p) [1..<Suc (length p)]) (fs w) of
                   Inl e \<Rightarrow> (Inl e, w)
                 | Inr f \<Rightarrow> (Inr (), w\<lparr>fs := f\<rparr>))))"

text \<open>\<^verbatim>\<open>os.getcwd()\<close> and \<^verbatim>\<open>os.chdir(d)\<close>.\<close>

definition os_getcwd :: "world \<Rightarrow> string" where
  "os_getcwd w = path_str (cwd w)"

definition os_chdir :: "string \<Rightarrow> world \<Rightarrow> unit result" where
  "os_chdir d w =
     (let p = resolve (cwd w) d in
      if d = [] then (Inl FileNotFoundError, w)
      else (case fs_lookup (fs w) p of
              None \<Rightarrow> (Inl FileNotFoundError, w)
            | Some (File c) \<Rightarrow> (Inl NotADirectoryError, w)
            | Some Dir \<Rightarrow> (Inr (), w\<lparr>cwd := p\<rparr>)))"

text \<open>\<^verbatim>\<open>os.path.exists(d)\<close>.\<close>

definition path_exists :: "string \<Rightarrow> world \<Rightarrow> bool" where
  "path_exists d w = (d \<noteq> [] \<and> fs_lookup (fs w) (resolve (cwd w) d) \<noteq> None)"

text \<open>
  \<^verbatim>\<open>shutil.copy2(src, dst)\<close>: a destination that is a directory receives the file under
  the base name of the source; an existing regular file is overwritten.
\<close>

definition copy2 :: "string \<Rightarrow> string \<Rightarrow> world \<Rightarrow> unit result" where
  "copy2 src dst w =
     (let s = resolve (cwd w) src;
          d0 = resolve (cwd w) dst;
          d = (if fs_lookup (fs w) d0 = Some Dir then d0 @ [last (split_sep src)] else d0)
      in case fs_lookup (fs w) s of
           None \<Rightarrow> (Inl FileNotFoundError, w)
         | Some Dir \<Rightarrow> (Inl IsADirectoryError, w)
         | Some (File c) \<Rightarrow>
             if s = d then (Inl SameFileError, w)
             else if fs_lookup (fs w) d = Some Dir then (Inl IsADirectoryError, w)
             else (case fs_lookup (fs w) (butlast d) of
                     None \<Rightarrow> (Inl FileNotFoundError, w)
                   | Some (File c') \<Rightarrow> (Inl NotADirectoryError, w)
                   | Some Dir \<Rightarrow> (Inr (), w\<lparr>fs := (d, File c) # fs w\<rparr>)))"

subsection \<open>External processes\<close>

text \<open>
  What an external program does is outside the repository. The environment gives, for a
  command line, the working directory and the file system it starts in, the outcome of the
  process: the executable was not found, the process exited with a status and left a file
  system behind, or it was interrupted from the keyboard. The environment also says which
  entries refuse to be removed (the simulated permission failure of a deletion).
\<close>

datatype outcome = NotFound | Exited int filesystem | Interrupted filesystem

record env =
  exec :: "string list \<Rightarrow> path \<Rightarrow> filesystem \<Rightarrow> outcome"
  undeletable :: "path \<Rightarrow> bool"

text \<open>
  \<^verbatim>\<open>subprocess.run(cmd, check=...)\<close>; the value is the return code. Only with
  \<open>check\<close> does a non-zero status raise \<open>CalledProcessError\<close>.
\<close>

definition run :: "env \<Rightarrow> string list \<Rightarrow> bool \<Rightarrow> world \<Rightarrow> int result" where
  "run e cmd check w =
     (case exec e cmd (cwd w) (fs w) of
        NotFound \<Rightarrow> (Inl FileNotFoundError, w)
      | Interrupted f \<Rightarrow>
          (Inl KeyboardInterrupt, w\<lparr>fs := f, procs := procs w @ [(cmd, cwd w)]\<rparr>)
      | Exited rc f \<Rightarrow>
          (let w' = w\<lparr>fs := f, procs := procs w @ [(cmd, cwd w)]\<rparr> in
           if check \<and> rc \<noteq> 0 then (Inl (CalledProcessError rc), w') else (Inr rc, w')))"

text \<open>
  The program \<^verbatim>\<open>rsync -av SRC DST\<close>, after its manual: the tree below \<open>SRC\<close> (its
  contents when \<open>SRC\<close> ends with a slash, the directory itself otherwise) is copied into
  \<open>DST\<close>, parents first. A regular file makes way for a directory; a directory makes way
  for a regular file only when it is empty. No \<^verbatim>\<open>--delete\<close> option is given, so
  nothing else is removed on the receiving side. The exit status is 0, or that of a
  partial transfer.
\<close>

definition rsync_item ::
  "filesystem \<Rightarrow> path \<Rightarrow> path \<Rightarrow> bool \<times> filesystem \<Rightarrow> path \<Rightarrow> bool \<times> filesystem" where
  "rsync_item f0 s d acc q =
     (let failed = fst acc; f = snd acc; t = d @ drop (length s) q in
      case map_of f0 q of
        None \<Rightarrow> (failed, f)
      | Some Dir \<Rightarrow>
          (case fs_lookup f t of
             Some Dir \<Rightarrow> (failed, f)
           | Some (File c) \<Rightarrow> (failed, (t, Dir) # f)
           | None \<Rightarrow>
               if fs_lookup f (butlast t) = Some Dir then (failed, (t, Dir) # f)
               else (True, f))
      | Some (File c) \<Rightarrow>
          (case fs_lookup f t of
             Some Dir \<Rightarrow> if has_children f t then (True, f) else (failed, (t, File c) # f)
           | Some (File c') \<Rightarrow> (failed, (t, File c) # f)
           | None \<Rightarrow>
               if fs_lookup f (butlast t) = Some Dir then (failed, (t, File c) # f)
               else (True, f)))"

definition rsync_av :: "string \<Rightarrow> string \<Rightarrow> path \<Rightarrow> filesystem \<Rightarrow> int \<times> filesystem" where
  "rsync_av src dst wd f =
     (let s = resolve wd src;
          d = resolve wd dst;
          base = (if src \<noteq> [] \<and> last src = CHR ''/'' then s else butlast s);
          items = (if src \<noteq> [] \<and> last src = CHR ''/'' then [] else [s]) @ entries_under f s;
          transfer = (\<lambda>g. let r = foldl (rsync_item f base d) (False, g) items
                           in (if fst r then 23 else 0, snd r))
      in if src = [] \<or> fs_lookup f s \<noteq> Some Dir then (23, f)
         else (case fs_lookup f d of
                 Some (File c) \<Rightarrow> (3, f)
               | Some Dir \<Rightarrow> transfer f
               | None \<Rightarrow>
                   if fs_lookup f (butlast d) = Some Dir then transfer ((d, Dir) # f)
                   else (11, f)))"

definition rsync_prog :: "string list \<Rightarrow> path \<Rightarrow> filesystem \<Rightarrow> outcome" where
  "rsync_prog argv wd f =
     (case argv of
        [prog, opts, src, dst] \<Rightarrow>
          if prog = ''rsync'' \<and> opts = ''-av''
          then Exited (fst (rsync_av src dst wd f)) (snd (rsync_av src dst wd f))
          else Exited 1 f
      | _ \<Rightarrow> Exited 1 f)"

subsection \<open>\<^verbatim>\<open>shutil.rmtree(path, onerror=...)\<close>\<close>

text \<open>
  Every entry below the directory is removed, children before their parents, then the
  directory itself. A removal that fails (the entry is undeletable, or a directory is
  not empty because something below it stayed) is handed to \<open>onerror\<close> with the
  failing function, the path name and the exception, and the walk goes on with the next
  entry. The model returns these failures in the order of the calls of \<open>onerror\<close>.
\<close>

type_synonym failure = "string \<times> string \<times> py_error"

definition rmtree_entry ::
  "env \<Rightarrow> string \<Rightarrow> path \<Rightarrow> filesystem \<times> failure list \<Rightarrow> path \<Rightarrow> filesystem \<times> failure list"
  where
  "rmtree_entry e base root acc q =
     (let f = fst acc; errs = snd acc;
          name = foldl path_join base (drop (length root) q)
      in case map_of f q of
           None \<Rightarrow> (f, errs)
         | Some (File c) \<Rightarrow>
             if undeletable e q then (f, errs @ [(''os.unlink'', name, PermissionError)])
             else (fs_remove q f, errs)
         | Some Dir \<Rightarrow>
             if undeletable e q then (f, errs @ [(''os.rmdir'', name, PermissionError)])
             else if has_children f q then (f, errs @ [(''os.rmdir'', name, DirectoryNotEmpty)])
             else (fs_remove q f, errs))"

definition rmtree :: "env \<Rightarrow> string \<Rightarrow> world \<Rightarrow> failure list \<times> world" where
  "rmtree e base w =
     (let root = resolve (cwd w) base in
      if base = [] then ([(''os.lstat'', base, FileNotFoundError)], w)
      else (case fs_lookup (fs w) root of
              None \<Rightarrow> ([(''os.lstat'', base, FileNotFoundError)], w)
            | Some (File c) \<Rightarrow>
                ([(''os.scandir'', base, NotADirectoryError),
                  (''os.rmdir'', base, NotADirectoryError)], w)
            | Some Dir \<Rightarrow>
                (let r = foldl (rmtree_entry e base root) (fs w, [])
                           (rev (entries_under (fs w) root) @ [root])
                 in (snd r, w\<lparr>fs := fst r\<rparr>))))"

section \<open>arbitrary.py\<close>

text \<open>
  \<^verbatim>\<open>makedir(*path, exists_ok=False, recursive=False, mode=0o777)\<close>. The parts are
  joined; \<^verbatim>\<open>os.path.join()\<close> without an argument is a \<open>TypeError\<close>. Permission
  bits are not modelled.
\<close>

definition makedir :: "string list \<Rightarrow> bool \<Rightarrow> bool \<Rightarrow> world \<Rightarrow> string result" where
  "makedir parts exists_ok recursive w =
     (case parts of
        [] \<Rightarrow> (Inl TypeError, w)
      | a # bs \<Rightarrow>
          (let d = foldl path_join a bs in
           if recursive then and_then (os_makedirs d exists_ok w) (\<lambda>u w'. (Inr d, w'))
           else (case os_mkdir d w of
                   (Inl e, w') \<Rightarrow>
                     if e = FileExistsError
                     then (if exists_ok then (Inr d, w') else (Inl e, w'))
                     else (Inl e, w')
                 | (Inr u, w') \<Rightarrow> (Inr d, w'))))"

text \<open>
  The context manager \<open>having_cwd\<close>: the body runs between the \<open>yield\<close> and the
  \<open>finally\<close> clause. The clause runs on every way out of the \<open>try\<close> block; when it
  raises itself, its exception replaces the pending outcome.
\<close>

definition having_cwd :: "string \<Rightarrow> (world \<Rightarrow> 'a result) \<Rightarrow> world \<Rightarrow> 'a result" where
  "having_cwd directory body w =
     (let cur_dir = os_getcwd w;
          r = and_then (os_chdir directory w) (\<lambda>u. body)
      in case os_chdir cur_dir (snd r) of
           (Inl e, w') \<Rightarrow> (Inl e, w')
         | (Inr u, w') \<Rightarrow> (fst r, w'))"

section \<open>build.py\<close>

subsection \<open>Console output\<close>

definition HEADER :: string where "HEADER = CHR 0x1B # ''[95m''"
definition INFOBLUE :: string where "INFOBLUE = CHR 0x1B # ''[94m''"
definition OKGREEN :: string where "OKGREEN = CHR 0x1B # ''[92m''"
definition WARNING :: string where "WARNING = CHR 0x1B # ''[93m''"
definition FAIL :: string where "FAIL = CHR 0x1B # ''[91m''"
definition ENDC :: string where "ENDC = CHR 0x1B # ''[0m''"
definition BOLD :: string where "BOLD = CHR 0x1B # ''[1m''"
definition UNDERLINE :: string where "UNDERLINE = CHR 0x1B # ''[4m''"

definition newline :: string where "newline = [CHR 0x0A]"

text \<open>\<^verbatim>\<open>print(txt, end=...)\<close>: one entry of the console per call.\<close>

definition py_print :: "string \<Rightarrow> string \<Rightarrow> world \<Rightarrow> world" where
  "py_print txt ending w = w\<lparr>console := console w @ [txt @ ending]\<rparr>"

definition print_markup :: "string \<Rightarrow> string \<Rightarrow> string \<Rightarrow> world \<Rightarrow> world" where
  "print_markup txt markup ending w = py_print (markup @ txt @ ENDC) ending w"

text \<open>
  \<open>print_frame\<close> is only called with literals of one line, for which
  \<^verbatim>\<open>max(map(len, txt.splitlines()))\<close> is the length of the text.
\<close>

definition print_frame :: "string \<Rightarrow> string \<Rightarrow> world \<Rightarrow> world" where
  "print_frame txt markup w =
     (let border = replicate (length txt + 4) (CHR ''*'');
          w1 = print_markup border BOLD newline w;
          w2 = print_markup ''| '' BOLD [] w1;
          w3 = print_markup txt markup [] w2;
          w4 = print_markup '' |'' BOLD newline w3
      in print_markup border BOLD newline w4)"

subsection \<open>The class \<open>TexBuild\<close>\<close>

definition init_dirs :: "texbuild \<Rightarrow> world \<Rightarrow> unit result" where
  "init_dirs tb w =
     and_then (makedir [tex_root tb] True True w) (\<lambda>d w1.
     and_then (makedir [tex_src tb] True False w1) (\<lambda>d' w2. (Inr (), w2)))"

definition rsync_command :: "texbuild \<Rightarrow> string list" where
  "rsync_command tb = [''rsync'', ''-av'', tex_src tb @ ''/'', tex_bld tb]"

definition copy_build_files :: "env \<Rightarrow> texbuild \<Rightarrow> world \<Rightarrow> unit result" where
  "copy_build_files e tb w =
     (let w1 = print_frame ''COPYING BUILD FILES TO BLD DIRECTORY'' (INFOBLUE @ BOLD) w
      in and_then (makedir [tex_bld tb] True False w1) (\<lambda>d w2.
         and_then (run e (rsync_command tb) False w2) (\<lambda>rc w3. (Inr (), w3))))"

text \<open>
  \<open>_run_latexmk_in_bld_dir\<close>. The command line \<open>build_command\<close> is built before the
  working directory changes; a list can only be concatenated with a list.
\<close>

definition build_command :: "string \<Rightarrow> string list \<Rightarrow> string list" where
  "build_command tex_filename opts =
     [''latexmk'', ''-halt-on-error'', ''-interaction=nonstopmode'',
      ''-pdflatex=lualatex'', ''-pdf'', tex_filename @ ''.tex''] @ opts"

definition run_latexmk_in_bld_dir ::
  "env \<Rightarrow> texbuild \<Rightarrow> string \<Rightarrow> pyval \<Rightarrow> world \<Rightarrow> unit result" where
  "run_latexmk_in_bld_dir e tb tex_filename latexmk_opts w =
     (case latexmk_opts of
        PList opts \<Rightarrow>
          having_cwd (tex_bld tb)
            (\<lambda>w1. and_then
               (run e (build_command tex_filename opts) True
                  (print_frame ''BUILDING DOCUMENT'' (INFOBLUE @ BOLD) w1))
               (\<lambda>rc w2. (Inr (), w2))) w
      | _ \<Rightarrow> (Inl TypeError, w))"

text \<open>
  \<open>_copy_to_dst\<close>. Both path names are computed first; only a string can be
  concatenated with the extension.
\<close>

definition copy_to_dst :: "texbuild \<Rightarrow> string \<Rightarrow> pyval \<Rightarrow> world \<Rightarrow> unit result" where
  "copy_to_dst tb tex_filename pdf_filename w =
     (let document_pdf_bld = path_join (tex_bld tb) (tex_filename @ ''.pdf'') in
      case pdf_filename of
        PStr pdf \<Rightarrow>
          (let document_pdf_dst = path_join (tex_dst tb) (pdf @ ''.pdf'') in
           and_then (makedir [tex_dst tb] True False w) (\<lambda>d w1.
             copy2 document_pdf_bld document_pdf_dst w1))
      | _ \<Rightarrow> (Inl TypeError, w))"

definition build_document ::
  "env \<Rightarrow> texbuild \<Rightarrow> string \<Rightarrow> pyval \<Rightarrow> pyval \<Rightarrow> world \<Rightarrow> bool result" where
  "build_document e tb tex_filename pdf_filename latexmk_opts w =
     (let latexmk_opts' = default_val latexmk_opts (PList []);
          pdf_filename' = default_val pdf_filename (PStr tex_filename);
          r = and_then (copy_build_files e tb w) (\<lambda>u w1.
              and_then (run_latexmk_in_bld_dir e tb tex_filename latexmk_opts' w1) (\<lambda>u w2.
              and_then (copy_to_dst tb tex_filename pdf_filename' w2) (\<lambda>u w3.
                (Inr True, print_markup ''BUILD SUCCESSFUL'' OKGREEN (newline @ newline) w3))))
      in case r of
           (Inl (CalledProcessError rc), w') \<Rightarrow>
             (Inr False, print_markup ''BUILD FAILED'' FAIL (newline @ newline) w')
         | _ \<Rightarrow> r)"

definition wait_for_code_changes :: "env \<Rightarrow> texbuild \<Rightarrow> world \<Rightarrow> unit result" where
  "wait_for_code_changes e tb w =
     (let watch_command =
            [''inotifywait'', ''-e'', ''modify,create,delete,attrib'', ''-r'', tex_src tb];
          w1 = print_frame ''WATCHING SRC DIRECTORY FOR CHANGES'' (INFOBLUE @ BOLD) w
      in and_then (run e watch_command False w1) (\<lambda>rc w2. (Inr (), w2)))"

text \<open>
  \<open>loop\<close> runs until the keyboard interrupts it or an exception escapes. The fuel
  bounds the number of rounds; \<open>None\<close> is a loop that has not returned within it.
\<close>

fun loop ::
  "nat \<Rightarrow> env \<Rightarrow> texbuild \<Rightarrow> string \<Rightarrow> pyval \<Rightarrow> pyval \<Rightarrow> world \<Rightarrow> unit result option"
  where
  "loop 0 e tb tex_filename pdf_filename latexmk_opts w = None"
| "loop (Suc n) e tb tex_filename pdf_filename latexmk_opts w =
     (case and_then (build_document e tb tex_filename pdf_filename latexmk_opts w)
             (\<lambda>b. wait_for_code_changes e tb) of
        (Inl KeyboardInterrupt, w') \<Rightarrow>
          Some (Inr (),
            print_markup ''QUITTING (interrupt signal received)'' WARNING newline
              (py_print [] newline w'))
      | (Inl err, w') \<Rightarrow> Some (Inl err, w')
      | (Inr u, w') \<Rightarrow> loop n e tb tex_filename pdf_filename latexmk_opts w')"

text \<open>The text of an exception, as \<^verbatim>\<open>print(exc_info[1])\<close> shows it.\<close>

fun exc_text :: "py_error \<Rightarrow> string \<Rightarrow> string" where
  "exc_text PermissionError name = ''[Errno 13] Permission denied: '' @ name"
| "exc_text DirectoryNotEmpty name = ''[Errno 39] Directory not empty: '' @ name"
| "exc_text NotADirectoryError name = ''[Errno 20] Not a directory: '' @ name"
| "exc_text FileNotFoundError name = ''[Errno 2] No such file or directory: '' @ name"
| "exc_text err name = name"

text \<open>
  The closure \<open>report_error\<close> of \<open>clean\<close>: it sets the flag \<open>encountered_errors\<close>
  and prints three lines; it returns nothing and keeps nothing else.
\<close>

definition report_error :: "bool \<times> world \<Rightarrow> failure \<Rightarrow> bool \<times> world" where
  "report_error st fl =
     (case fl of (func, pafh, exc) \<Rightarrow>
        (True,
         py_print (exc_text exc pafh) newline
           (py_print func newline
              (py_print (''(error) got error removing: '' @ pafh) newline (snd st)))))"

text \<open>\<open>clean\<close> has no \<open>return\<close> statement: its value is \<open>None\<close>.\<close>

definition clean :: "env \<Rightarrow> texbuild \<Rightarrow> world \<Rightarrow> pyval \<times> world" where
  "clean e tb w =
     (let w1 = print_frame ''CLEANING BLD DIRECTORY'' (INFOBLUE @ BOLD) w;
          st = (if path_exists (tex_bld tb) w1
                then (let r = rmtree e (tex_bld tb) w1
                      in foldl report_error (False, snd r) (fst r))
                else (False, py_print (tex_bld tb @ '' already removed'') newline w1));
          encountered_errors = fst st
      in (PNone,
          if encountered_errors
          then print_markup ''CLEANUP FINISHED (errors encountered)'' WARNING newline (snd st)
          else print_markup ''CLEANUP FINISHED'' OKGREEN newline (snd st)))"

subsection \<open>The command line\<close>

text \<open>
  The \<open>Namespace\<close> that \<open>parse_cmd_args\<close> returns: \<open>latexmk_opts\<close> is \<open>None\<close>
  without \<^verbatim>\<open>--latexmk-opts\<close> and the list of its arguments otherwise.
\<close>

record namespace =
  root :: string
  cmd :: string
  document :: string
  latexmk_opts :: "string list option"

definition opts_val :: "string list option \<Rightarrow> pyval" where
  "opts_val x = (case x of None \<Rightarrow> PNone | Some l \<Rightarrow> PList l)"

text \<open>
  \<open>run_args\<close>. The four tests compare \<open>ns.cmd\<close> with different literals, so at most
  one of them holds. The calls pass \<open>ns.latexmk_opts\<close> as the second positional argument;
  the third parameter keeps its default \<open>None\<close>. The first argument is the fuel of
  \<open>loop\<close>.
\<close>

definition run_args :: "nat \<Rightarrow> env \<Rightarrow> namespace \<Rightarrow> world \<Rightarrow> unit result option" where
  "run_args fuel e ns w =
     (let tb = \<lparr>tex_root = root ns\<rparr> in
      if cmd ns = ''copy'' then Some (copy_build_files e tb w)
      else if cmd ns = ''build'' then
        Some (and_then (build_document e tb (document ns) (opts_val (latexmk_opts ns)) PNone w)
                (\<lambda>b w'. (Inr (), w')))
      else if cmd ns = ''loop'' then
        loop fuel e tb (document ns) (opts_val (latexmk_opts ns)) PNone w
      else if cmd ns = ''clean'' then Some (Inr (), snd (clean e tb w))
      else Some (Inr (), w))"

section \<open>Notions used in the statements\<close>



section \<open>An example project\<close>

text \<open>
  A project \<^verbatim>\<open>/tmp/proj\<close> with one source file and a build directory that holds an
  intermediate file of an earlier run; the process starts in \<^verbatim>\<open>/home\<close>. In the
  example environment \<^verbatim>\<open>rsync\<close> is the program modelled above, \<^verbatim>\<open>latexmk\<close>
  is a stub that exits with a given status and, when told so, writes \<^verbatim>\<open>main.pdf\<close>
  into its working directory, and no other program is installed. The intermediate file
  refuses to be removed.
\<close>

definition example_fs :: filesystem where
  "example_fs =
     [([''tmp''], Dir), ([''tmp'', ''proj''], Dir), ([''tmp'', ''proj'', ''src''], Dir),
      ([''tmp'', ''proj'', ''src'', ''main.tex''], File ''Hello''),
      ([''tmp'', ''proj'', ''bld''], Dir),
      ([''tmp'', ''proj'', ''bld'', ''extra.aux''], File ''aux''),
      ([''home''], Dir)]"

definition example_world :: world where
  "example_world = \<lparr>fs = example_fs, cwd = [''home''], console = [], procs = []\<rparr>"

definition example_env :: "int \<Rightarrow> bool \<Rightarrow> env" where
  "example_env status writes_pdf =
     \<lparr>exec = (\<lambda>argv wd f.
        case argv of
          [] \<Rightarrow> NotFound
        | prog # args \<Rightarrow>
            if prog = ''rsync'' then rsync_prog argv wd f
            else if prog = ''latexmk''
            then Exited status (if writes_pdf then (wd @ [''main.pdf''], File ''PDF'') # f else f)
            else NotFound),
      undeletable = (\<lambda>p. p = [''tmp'', ''proj'', ''bld'', ''extra.aux''])\<rparr>"

definition example_tb :: texbuild where
  "example_tb = \<lparr>tex_root = ''/tmp/proj''\<rparr>"

section \<open>The path resolver\<close>

lemma path_join_relative:
  "b \<noteq> [] \<Longrightarrow> hd b \<noteq> CHR ''/'' \<Longrightarrow> path_join a b = a @ join_sep a @ b"
  by (simp add: path_join_def join_sep_def)

text \<open>
  C9. For every project root \<open>R\<close>, relative or absolute, the three directories are exactly
  the joins of \<open>R\<close> with \<open>src\<close>, \<open>bld\<close> and \<open>dst\<close>: \<open>R\<close> itself is kept character for
  character (nothing is normalised, made absolute or validated), followed by the separator
  that the join inserts and the fixed name. The functions are pure and total: they read no
  state and have no error result.
\<close>

theorem path_resolver_joins:
  "tex_src \<lparr>tex_root = R\<rparr> = path_join R ''src'' \<and>
   tex_bld \<lparr>tex_root = R\<rparr> = path_join R ''bld'' \<and>
   tex_dst \<lparr>tex_root = R\<rparr> = path_join R ''dst'' \<and>
   tex_src \<lparr>tex_root = R\<rparr> = R @ join_sep R @ ''src'' \<and>
   tex_bld \<lparr>tex_root = R\<rparr> = R @ join_sep R @ ''bld'' \<and>
   tex_dst \<lparr>tex_root = R\<rparr> = R @ join_sep R @ ''dst''"
  by (simp add: tex_src_def tex_bld_def tex_dst_def path_join_relative)

theorem path_resolver_joins_witness:
  "tex_src \<lparr>tex_root = ''/tmp/proj''\<rparr> = ''/tmp/proj/src'' \<and>
   tex_bld \<lparr>tex_root = ''/tmp/proj''\<rparr> = ''/tmp/proj/bld'' \<and>
   tex_dst \<lparr>tex_root = ''/tmp/proj''\<rparr> = ''/tmp/proj/dst'' \<and>
   tex_src \<lparr>tex_root = ''../doc/''\<rparr> = ''../doc/src'' \<and>
   tex_bld \<lparr>tex_root = ''proj''\<rparr> = ''proj/bld'' \<and>
   tex_dst \<lparr>tex_root = ''''\<rparr> = ''dst''"
  using path_resolver_joins [of "''/tmp/proj''"] path_resolver_joins [of "''../doc/''"]
    path_resolver_joins [of "''proj''"] path_resolver_joins [of "''''"]
  by (simp add: join_sep_def path_join_def)

section \<open>Basic facts\<close>

lemma and_then_Inr [simp]: "and_then (Inr x, w) k = k x w"
  by (simp add: and_then_def)

lemma and_then_Inl [simp]: "and_then (Inl e, w) k = (Inl e, w)"
  by (simp add: and_then_def)

lemma split_sep_not_Nil [simp]: "split_sep s \<noteq> []"
  by (induction s) (auto split: list.splits)

lemma split_sep_plain: "CHR ''/'' \<notin> set n \<Longrightarrow> split_sep n = [n]"
  by (induction n) auto

lemma split_sep_append_sep:
  "CHR ''/'' \<notin> set n \<Longrightarrow> split_sep (d @ CHR ''/'' # n) = split_sep d @ [n]"
proof (induction d)
  case Nil
  then show ?case by (simp add: split_sep_plain)
next
  case (Cons c d)
  then show ?case by (cases "split_sep d") auto
qed




lemma resolve_path_join:
  assumes "n \<noteq> []" and "CHR ''/'' \<notin> set n"
  shows "resolve wd (path_join d n) = walk (resolve wd d) n"
proof -
  from assms have hd: "hd n \<noteq> CHR ''/''" by (cases n) auto
  show ?thesis
  proof (cases "d = []")
    case True
    with assms hd show ?thesis
      by (simp add: path_join_def resolve_def split_sep_plain walk_def)
  next
    case False
    show ?thesis
    proof (cases "last d = CHR ''/''")
      case True
      with False obtain d' where d: "d = d' @ ''/''"
        by (metis append_butlast_last_id)
      have 1: "split_sep (d @ n) = split_sep d' @ [n]"
        using assms split_sep_append_sep [of n d'] by (simp add: d)
      have 2: "split_sep d = split_sep d' @ [[]]"
        using split_sep_append_sep [of "[]" d'] by (simp add: d)
      have 3: "hd (d @ n) = hd d" using False by simp
      show ?thesis
        using False True assms hd
        by (simp add: path_join_def resolve_def 1 2 3) (simp add: walk_def)
    next
      case True': False
      have 1: "split_sep (d @ CHR ''/'' # n) = split_sep d @ [n]"
        using assms split_sep_append_sep by simp
      have 3: "hd (d @ CHR ''/'' # n) = hd d" using False by simp
      show ?thesis
        using False True' assms hd
        by (simp add: path_join_def resolve_def 1 3)
    qed
  qed
qed

lemma resolve_trailing_sep: "s \<noteq> [] \<Longrightarrow> resolve wd (s @ ''/'') = resolve wd s"
  using split_sep_append_sep [of "[]" s] by (simp add: resolve_def walk_def)



lemma py_print_frame [simp]:
  "fs (py_print t x w) = fs w" "cwd (py_print t x w) = cwd w" "procs (py_print t x w) = procs w"
  by (simp_all add: py_print_def)

lemma print_markup_frame [simp]:
  "fs (print_markup t m x w) = fs w" "cwd (print_markup t m x w) = cwd w"
  "procs (print_markup t m x w) = procs w"
  by (simp_all add: print_markup_def)

lemma print_frame_frame [simp]:
  "fs (print_frame t m w) = fs w" "cwd (print_frame t m w) = cwd w"
  "procs (print_frame t m w) = procs w"
  by (simp_all add: print_frame_def Let_def)

lemma os_chdir_fs [simp]: "fs (snd (os_chdir d w)) = fs w"
  by (simp add: os_chdir_def Let_def split: option.splits node.splits)

lemma os_chdir_procs [simp]: "procs (snd (os_chdir d w)) = procs w"
  by (simp add: os_chdir_def Let_def split: option.splits node.splits)

lemma os_chdir_console [simp]: "console (snd (os_chdir d w)) = console w"
  by (simp add: os_chdir_def Let_def split: option.splits node.splits)

lemma os_chdir_Inr:
  "os_chdir d w = (Inr u, w') \<Longrightarrow>
   w' = w\<lparr>cwd := resolve (cwd w) d\<rparr> \<and> fs_lookup (fs w) (resolve (cwd w) d) = Some Dir"
  by (auto simp: os_chdir_def Let_def split: option.splits node.splits if_splits)

lemma os_chdir_Inl: "os_chdir d w = (Inl e, w') \<Longrightarrow> w' = w"
  by (auto simp: os_chdir_def Let_def split: option.splits node.splits if_splits)

lemma path_str_not_Nil [simp]: "path_str p \<noteq> []"
  by (cases p) (simp_all add: path_str_def)



lemma having_cwd_fs [simp]:
  "fs (snd (having_cwd directory body w)) = fs (snd (and_then (os_chdir directory w) (\<lambda>u. body)))"
proof -
  obtain x w' where r: "os_chdir (os_getcwd w) (snd (and_then (os_chdir directory w) (\<lambda>u. body))) = (x, w')"
    by (cases "os_chdir (os_getcwd w) (snd (and_then (os_chdir directory w) (\<lambda>u. body)))")
  have "fs w' = fs (snd (and_then (os_chdir directory w) (\<lambda>u. body)))"
    using os_chdir_fs [of "os_getcwd w" "snd (and_then (os_chdir directory w) (\<lambda>u. body))"] r by simp
  then show ?thesis
    using r by (cases x) (simp_all add: having_cwd_def Let_def)
qed

lemma os_chdir_snd: "\<exists>c. snd (os_chdir d w) = w\<lparr>cwd := c\<rparr>"
proof (cases "os_chdir d w")
  case (Pair x w')
  show ?thesis
  proof (cases x)
    case (Inl e)
    with Pair have "w' = w" using os_chdir_Inl [of d w e w'] by simp
    then have "snd (os_chdir d w) = w\<lparr>cwd := cwd w\<rparr>" using Pair by simp
    then show ?thesis by blast
  next
    case (Inr u)
    with Pair show ?thesis using os_chdir_Inr [of d w u w'] by auto
  qed
qed

lemma having_cwd_snd:
  "\<exists>c. snd (having_cwd directory body w) =
        (snd (and_then (os_chdir directory w) (\<lambda>u. body)))\<lparr>cwd := c\<rparr>"
proof -
  let ?r = "and_then (os_chdir directory w) (\<lambda>u. body)"
  obtain c where c: "snd (os_chdir (os_getcwd w) (snd ?r)) = (snd ?r)\<lparr>cwd := c\<rparr>"
    using os_chdir_snd by blast
  obtain x w' where r: "os_chdir (os_getcwd w) (snd ?r) = (x, w')"
    by (cases "os_chdir (os_getcwd w) (snd ?r)")
  with c have "w' = (snd ?r)\<lparr>cwd := c\<rparr>" by simp
  then have "snd (having_cwd directory body w) = (snd ?r)\<lparr>cwd := c\<rparr>"
    using r by (cases x) (simp_all add: having_cwd_def Let_def)
  then show ?thesis by blast
qed

lemma having_cwd_procs [simp]:
  "procs (snd (having_cwd directory body w)) =
   procs (snd (and_then (os_chdir directory w) (\<lambda>u. body)))"
  using having_cwd_snd [of directory body w] by auto

lemma run_Exited:
  "exec e c (cwd w) (fs w) = Exited rc f \<Longrightarrow>
   run e c check w =
     (if check \<and> rc \<noteq> 0 then Inl (CalledProcessError rc) else Inr rc,
      w\<lparr>fs := f, procs := procs w @ [(c, cwd w)]\<rparr>)"
  by (simp add: run_def Let_def)

lemma run_procs:
  "procs (snd (run e c check w)) =
     (if exec e c (cwd w) (fs w) = NotFound then procs w else procs w @ [(c, cwd w)])"
  by (simp add: run_def Let_def split: outcome.splits)

lemma run_cwd [simp]: "cwd (snd (run e c check w)) = cwd w"
  by (simp add: run_def Let_def split: outcome.splits)

lemma run_not_CalledProcessError: "fst (run e c False w) \<noteq> Inl (CalledProcessError rc)"
  by (simp add: run_def Let_def split: outcome.splits)

lemma run_latexmk_procs:
  "procs (snd (run_latexmk_in_bld_dir e tb doc (PList opts) w)) =
     (case os_chdir (tex_bld tb) w of
        (Inl err, w1) \<Rightarrow> procs w
      | (Inr u, w1) \<Rightarrow>
          procs (snd (run e
            (build_command doc opts) True
            (print_frame ''BUILDING DOCUMENT'' (INFOBLUE @ BOLD) w1))))"
proof (cases "os_chdir (tex_bld tb) w")
  case (Pair x w1)
  show ?thesis
  proof (cases x)
    case (Inl err)
    with Pair show ?thesis
      using os_chdir_Inl [of "tex_bld tb" w err w1]
      by (simp add: run_latexmk_in_bld_dir_def)
  next
    case (Inr u)
    obtain y w2 where r: "run e
            (build_command doc opts) True
            (print_frame ''BUILDING DOCUMENT'' (INFOBLUE @ BOLD) w1) = (y, w2)"
      by (cases "run e
            (build_command doc opts) True
            (print_frame ''BUILDING DOCUMENT'' (INFOBLUE @ BOLD) w1)")
    from Pair Inr r show ?thesis
      by (cases y) (simp_all add: run_latexmk_in_bld_dir_def)
  qed
qed

lemma tex_dirs_not_Nil [simp]: "tex_src tb \<noteq> []" "tex_bld tb \<noteq> []" "tex_dst tb \<noteq> []"
  by (simp_all add: tex_src_def tex_bld_def tex_dst_def path_join_def)

lemma makedir_single:
  "d \<noteq> [] \<Longrightarrow>
   makedir [d] True False w =
     (case fs_lookup (fs w) (resolve (cwd w) d) of
        Some n \<Rightarrow> (Inr d, w)
      | None \<Rightarrow>
          (case fs_lookup (fs w) (butlast (resolve (cwd w) d)) of
             None \<Rightarrow> (Inl FileNotFoundError, w)
           | Some (File c) \<Rightarrow> (Inl NotADirectoryError, w)
           | Some Dir \<Rightarrow> (Inr d, w\<lparr>fs := (resolve (cwd w) d, Dir) # fs w\<rparr>)))"
  by (simp add: makedir_def os_mkdir_def Let_def split: option.splits node.splits)

lemma makedir_cwd [simp]: "d \<noteq> [] \<Longrightarrow> cwd (snd (makedir [d] True False w)) = cwd w"
  by (simp add: makedir_single split: option.splits node.splits)

lemma makedir_procs [simp]: "d \<noteq> [] \<Longrightarrow> procs (snd (makedir [d] True False w)) = procs w"
  by (simp add: makedir_single split: option.splits node.splits)

lemma makedir_not_CalledProcessError:
  "d \<noteq> [] \<Longrightarrow> fst (makedir [d] True False w) \<noteq> Inl (CalledProcessError rc)"
  by (simp add: makedir_single split: option.splits node.splits)

lemma fs_lookup_Cons:
  "fs_lookup ((p, n) # f) q = (if q = p \<and> q \<noteq> [] then Some n else fs_lookup f q)"
  by (simp add: fs_lookup_def)

lemma makedir_lookup:
  assumes "d \<noteq> []" and "fs_lookup (fs w) q = Some n"
  shows "fs_lookup (fs (snd (makedir [d] True False w))) q = Some n"
proof (cases "fs_lookup (fs w) (resolve (cwd w) d)")
  case None
  with assms have "q \<noteq> resolve (cwd w) d" by auto
  with assms None show ?thesis
    by (simp add: makedir_single fs_lookup_Cons split: option.splits node.splits)
next
  case (Some a)
  with assms show ?thesis by (simp add: makedir_single)
qed

lemma copy2_not_CalledProcessError: "fst (copy2 a b w) \<noteq> Inl (CalledProcessError rc)"
  by (simp add: copy2_def Let_def split: option.splits node.splits)

lemma and_then_cases:
  "and_then r k = (case fst r of Inl e \<Rightarrow> (Inl e, snd r) | Inr x \<Rightarrow> k x (snd r))"
  by (cases r) (simp add: and_then_def split: sum.splits)

lemma copy_build_files_cwd [simp]: "cwd (snd (copy_build_files e tb w)) = cwd w"
proof -
  let ?w1 = "print_frame ''COPYING BUILD FILES TO BLD DIRECTORY'' (INFOBLUE @ BOLD) w"
  obtain x w2 where m: "makedir [tex_bld tb] True False ?w1 = (x, w2)"
    by (cases "makedir [tex_bld tb] True False ?w1")
  have c2: "cwd w2 = cwd w" using makedir_cwd [of "tex_bld tb" ?w1] m by simp
  show ?thesis
  proof (cases x)
    case (Inl err)
    with m c2 show ?thesis by (simp add: copy_build_files_def Let_def)
  next
    case (Inr d)
    obtain y w3 where r: "run e (rsync_command tb) False w2 = (y, w3)"
      by (cases "run e (rsync_command tb) False w2")
    have "cwd w3 = cwd w2" using run_cwd [of e "rsync_command tb" False w2] r by simp
    with Inr m c2 r show ?thesis
      by (cases y) (simp_all add: copy_build_files_def Let_def)
  qed
qed

lemma copy_build_files_not_CalledProcessError:
  "fst (copy_build_files e tb w) \<noteq> Inl (CalledProcessError rc)"
proof -
  let ?w1 = "print_frame ''COPYING BUILD FILES TO BLD DIRECTORY'' (INFOBLUE @ BOLD) w"
  obtain x w2 where m: "makedir [tex_bld tb] True False ?w1 = (x, w2)"
    by (cases "makedir [tex_bld tb] True False ?w1")
  have nx: "x \<noteq> Inl (CalledProcessError rc)"
    using makedir_not_CalledProcessError [of "tex_bld tb" ?w1 rc] m by simp
  show ?thesis
  proof (cases x)
    case (Inl err)
    with m nx show ?thesis by (simp add: copy_build_files_def Let_def)
  next
    case (Inr d)
    obtain y w3 where r: "run e (rsync_command tb) False w2 = (y, w3)"
      by (cases "run e (rsync_command tb) False w2")
    have "y \<noteq> Inl (CalledProcessError rc)"
      using run_not_CalledProcessError [of e "rsync_command tb" w2 rc] r by simp
    with Inr m r show ?thesis
      by (cases y) (simp_all add: copy_build_files_def Let_def)
  qed
qed

lemma copy_to_dst_not_CalledProcessError:
  "fst (copy_to_dst tb doc pdf w) \<noteq> Inl (CalledProcessError rc)"
proof (cases pdf)
  case (PStr out)
  obtain x w1 where m: "makedir [tex_dst tb] True False w = (x, w1)"
    by (cases "makedir [tex_dst tb] True False w")
  have nx: "x \<noteq> Inl (CalledProcessError rc)"
    using makedir_not_CalledProcessError [of "tex_dst tb" w rc] m by simp
  show ?thesis
    using PStr m nx copy2_not_CalledProcessError
    by (cases x) (simp_all add: copy_to_dst_def Let_def)
qed (simp_all add: copy_to_dst_def)

lemma print_frame_console_cwd [simp]:
  "console (print_frame t m (w\<lparr>cwd := c\<rparr>)) = console (print_frame t m w)"
  by (simp add: print_frame_def print_markup_def py_print_def Let_def)


lemma default_val_simps [simp]:
  "default_val PNone d = d" "default_val (PStr s) d = PStr s" "default_val (PList l) d = PList l"
  by (simp_all add: default_val_def)

lemma entries_under_set: "set (entries_under f s) = {q \<in> fst ` set f. is_under s q}"
  by (auto simp: entries_under_def)

lemma is_under_split: "is_under s q \<Longrightarrow> q = s @ drop (length s) q"
  by (metis append_take_drop_id is_under_def)

lemma fs_lookup_present:
  assumes "q \<in> fst ` set f"
  shows "fs_lookup f q \<noteq> None"
proof -
  from assms have "map_of f q \<noteq> None" by (simp add: map_of_eq_None_iff)
  then show ?thesis by (simp add: fs_lookup_def)
qed

lemma resolve_tex_dirs:
  "resolve wd (tex_src tb) = resolve wd (tex_root tb) @ [''src'']"
  "resolve wd (tex_bld tb) = resolve wd (tex_root tb) @ [''bld'']"
  "resolve wd (tex_dst tb) = resolve wd (tex_root tb) @ [''dst'']"
  by (simp_all add: tex_src_def tex_bld_def tex_dst_def resolve_path_join walk_def)

section \<open>Directory creation over a regular file\<close>



section \<open>The scoped working directory\<close>



section \<open>The command line of the compiler\<close>



section \<open>A failed compilation\<close>




section \<open>A successful build\<close>






section \<open>Faults of the staging and the publishing\<close>

lemma build_document_sync_fault:
  assumes "copy_build_files e tb w = (Inl err, w1)"
  shows "build_document e tb doc pdf lopts w = (Inl err, w1) \<and> (\<forall>rc. err \<noteq> CalledProcessError rc)"
proof -
  have n: "err \<noteq> CalledProcessError rc" for rc
    using copy_build_files_not_CalledProcessError [of e tb w rc] assms by simp
  then show ?thesis
    using assms by (cases err) (auto simp: build_document_def Let_def)
qed

lemma build_document_publish_fault:
  assumes "copy_build_files e tb w = (Inr (), w1)"
    and "run_latexmk_in_bld_dir e tb doc (default_val lopts (PList [])) w1 = (Inr (), w2)"
    and "copy_to_dst tb doc (default_val pdf (PStr doc)) w2 = (Inl err, w3)"
  shows "build_document e tb doc pdf lopts w = (Inl err, w3) \<and> (\<forall>rc. err \<noteq> CalledProcessError rc)"
proof -
  have n: "err \<noteq> CalledProcessError rc" for rc
    using copy_to_dst_not_CalledProcessError [of tb doc "default_val pdf (PStr doc)" w2 rc] assms
    by simp
  then show ?thesis
    using assms by (cases err) (auto simp: build_document_def Let_def)
qed

lemma build_document_False_only:
  assumes "fst (build_document e tb doc pdf lopts w) = Inr False"
  shows "\<exists>rc. fst (and_then (copy_build_files e tb w)
                 (\<lambda>u. run_latexmk_in_bld_dir e tb doc (default_val lopts (PList [])))) =
               Inl (CalledProcessError rc)"
proof -
  obtain x w1 where s: "copy_build_files e tb w = (x, w1)"
    by (cases "copy_build_files e tb w")
  show ?thesis
  proof (cases x)
    case (Inl err)
    with s have "copy_build_files e tb w = (Inl err, w1)" by simp
    from build_document_sync_fault [OF this, of doc pdf lopts] assms show ?thesis by simp
  next
    case (Inr u)
    obtain y w2 where c: "run_latexmk_in_bld_dir e tb doc (default_val lopts (PList [])) w1 = (y, w2)"
      by (cases "run_latexmk_in_bld_dir e tb doc (default_val lopts (PList [])) w1")
    show ?thesis
    proof (cases y)
      case (Inl err)
      with s Inr c assms show ?thesis
        by (cases err) (simp_all add: build_document_def Let_def)
    next
      case Inr2: (Inr u2)
      obtain z w3 where p: "copy_to_dst tb doc (default_val pdf (PStr doc)) w2 = (z, w3)"
        by (cases "copy_to_dst tb doc (default_val pdf (PStr doc)) w2")
      show ?thesis
      proof (cases z)
        case (Inl err)
        from s Inr have s': "copy_build_files e tb w = (Inr (), w1)" by simp
        from c Inr2 have c': "run_latexmk_in_bld_dir e tb doc (default_val lopts (PList [])) w1 = (Inr (), w2)"
          by simp
        from p Inl have p': "copy_to_dst tb doc (default_val pdf (PStr doc)) w2 = (Inl err, w3)"
          by simp
        from build_document_publish_fault [OF s' c' p'] assms show ?thesis by simp
      next
        case Inr3: (Inr u3)
        with s Inr c Inr2 p assms show ?thesis
          by (simp add: build_document_def Let_def)
      qed
    qed
  qed
qed

text \<open>
  C4, as the code has it. When the staging raises an exception, or the staging and the
  compilation succeed and the publishing raises one (for example \<open>FileNotFoundError\<close>
  because the compiler left no artifact), \<open>build_document\<close> returns no value at all: the
  exception reaches the caller, with the state as the failing step left it. Such an
  exception is never a \<open>CalledProcessError\<close>, and \<open>False\<close> is returned only when a
  \<open>CalledProcessError\<close> was raised, by the compilation: the two kinds of failure stay
  apart.
\<close>

theorem build_document_io_fault:
  "(copy_build_files e tb w = (Inl err, w1) \<longrightarrow>
      build_document e tb doc pdf lopts w = (Inl err, w1) \<and>
      (\<forall>rc. err \<noteq> CalledProcessError rc)) \<and>
   (copy_build_files e tb w = (Inr (), w1) \<and>
    run_latexmk_in_bld_dir e tb doc (default_val lopts (PList [])) w1 = (Inr (), w2) \<and>
    copy_to_dst tb doc (default_val pdf (PStr doc)) w2 = (Inl err, w3) \<longrightarrow>
      build_document e tb doc pdf lopts w = (Inl err, w3) \<and>
      (\<forall>rc. err \<noteq> CalledProcessError rc)) \<and>
   (fst (build_document e tb doc pdf lopts w) = Inr False \<longrightarrow>
      (\<exists>rc. fst (and_then (copy_build_files e tb w)
                  (\<lambda>u. run_latexmk_in_bld_dir e tb doc (default_val lopts (PList [])))) =
               Inl (CalledProcessError rc)))"
  using build_document_sync_fault [of e tb w err w1 doc pdf lopts]
    build_document_publish_fault [of e tb w w1 doc lopts w2 pdf err w3]
    build_document_False_only [of e tb doc pdf lopts w]
  by blast

theorem build_document_io_fault_witness:
  "fst (build_document (example_env 0 False) example_tb ''main'' PNone PNone example_world) =
     Inl FileNotFoundError \<and>
   fst (build_document (example_env 0 True) \<lparr>tex_root = ''/nowhere''\<rparr> ''main'' PNone PNone
          example_world) = Inl FileNotFoundError"
proof -
  let ?e = "example_env 0 False"
  let ?w1 = "snd (copy_build_files ?e example_tb example_world)"
  let ?w2 = "snd (run_latexmk_in_bld_dir ?e example_tb ''main'' (default_val PNone (PList [])) ?w1)"
  let ?w3 = "snd (copy_to_dst example_tb ''main'' (default_val PNone (PStr ''main'')) ?w2)"
  have "fst (copy_build_files ?e example_tb example_world) = Inr ()" by code_simp
  then have s: "copy_build_files ?e example_tb example_world = (Inr (), ?w1)"
    by (simp add: prod_eq_iff)
  have "fst (run_latexmk_in_bld_dir ?e example_tb ''main'' (default_val PNone (PList [])) ?w1) =
          Inr ()"
    by code_simp
  then have c: "run_latexmk_in_bld_dir ?e example_tb ''main'' (default_val PNone (PList [])) ?w1 =
          (Inr (), ?w2)"
    by (simp add: prod_eq_iff)
  have "fst (copy_to_dst example_tb ''main'' (default_val PNone (PStr ''main'')) ?w2) =
          Inl FileNotFoundError"
    by code_simp
  then have p: "copy_to_dst example_tb ''main'' (default_val PNone (PStr ''main'')) ?w2 =
          (Inl FileNotFoundError, ?w3)"
    by (simp add: prod_eq_iff)
  let ?e' = "example_env 0 True"
  let ?tb' = "\<lparr>tex_root = ''/nowhere''\<rparr>"
  let ?v1 = "snd (copy_build_files ?e' ?tb' example_world)"
  have "fst (copy_build_files ?e' ?tb' example_world) = Inl FileNotFoundError" by code_simp
  then have s': "copy_build_files ?e' ?tb' example_world = (Inl FileNotFoundError, ?v1)"
    by (simp add: prod_eq_iff)
  have a: "build_document ?e example_tb ''main'' PNone PNone example_world =
             (Inl FileNotFoundError, ?w3)"
    using build_document_io_fault [of ?e example_tb example_world FileNotFoundError ?w1
        "''main''" PNone PNone ?w2 ?w3] s c p
    by blast
  have b: "build_document ?e' ?tb' ''main'' PNone PNone example_world =
             (Inl FileNotFoundError, ?v1)"
    using build_document_io_fault [of ?e' ?tb' example_world FileNotFoundError ?v1
        "''main''" PNone PNone] s'
    by blast
  from a b show ?thesis by simp
qed

theorem build_document_io_fault_counterexample:
  "fst (copy_to_dst example_tb ''main'' (PStr ''main'')
         (snd (run_latexmk_in_bld_dir (example_env 0 False) example_tb ''main'' (PList [])
            (snd (copy_build_files (example_env 0 False) example_tb example_world))))) =
     Inl FileNotFoundError \<and>
   fst (build_document (example_env 0 False) example_tb ''main'' PNone PNone example_world) \<noteq>
     Inr False"
  by code_simp

section \<open>The staging is additive\<close>

lemma rsync_item_lookup:
  "p \<noteq> d @ drop (length s) q \<Longrightarrow>
   fs_lookup (snd (rsync_item f0 s d acc q)) p = fs_lookup (snd acc) p"
  by (simp add: rsync_item_def Let_def fs_lookup_Cons split: option.splits node.splits)

lemma rsync_items_lookup:
  "\<forall>q\<in>set items. p \<noteq> d @ drop (length s) q \<Longrightarrow>
   fs_lookup (snd (foldl (rsync_item f0 s d) acc items)) p = fs_lookup (snd acc) p"
  by (induction items arbitrary: acc) (simp_all add: rsync_item_lookup)

lemma rsync_av_lookup:
  assumes src: "src \<noteq> []" "last src = CHR ''/''"
    and r: "r \<noteq> []"
    and absent: "fs_lookup f (resolve wd src @ r) = None"
  shows "fs_lookup (snd (rsync_av src dst wd f)) (resolve wd dst @ r) =
         fs_lookup f (resolve wd dst @ r)"
proof -
  let ?s = "resolve wd src"
  let ?d = "resolve wd dst"
  have items: "\<forall>q\<in>set (entries_under f ?s). ?d @ r \<noteq> ?d @ drop (length ?s) q"
  proof
    fix q
    assume q: "q \<in> set (entries_under f ?s)"
    then have u: "is_under ?s q" and m: "q \<in> fst ` set f"
      by (simp_all add: entries_under_set)
    show "?d @ r \<noteq> ?d @ drop (length ?s) q"
    proof
      assume "?d @ r = ?d @ drop (length ?s) q"
      then have "q = ?s @ r" using is_under_split [OF u] by simp
      with absent fs_lookup_present [OF m] show False by simp
    qed
  qed
  have t: "fs_lookup (snd (foldl (rsync_item f ?s ?d) (False, g) (entries_under f ?s))) (?d @ r) =
           fs_lookup g (?d @ r)" for g
    using rsync_items_lookup [OF items, of f "(False, g)"] by simp
  have c: "fs_lookup ((?d, Dir) # f) (?d @ r) = fs_lookup f (?d @ r)"
    using r by (simp add: fs_lookup_Cons)
  show ?thesis
    using src t c
    by (simp add: rsync_av_def Let_def split: option.splits node.splits)
qed

text \<open>
  C5. The staging never removes or changes what only the build directory has. Let
  \<^verbatim>\<open>rsync\<close> be the program of its manual. Every entry (a regular file with its
  contents, or a directory) that exists at a relative path below the build directory, while
  nothing exists at that relative path below the source directory, is still there,
  unchanged, after \<open>copy_build_files\<close>, whether the staging completes or raises.
\<close>

theorem copy_build_files_additive:
  assumes prog: "exec e (rsync_command tb) = rsync_prog (rsync_command tb)"
    and r: "r \<noteq> []"
    and only: "fs_lookup (fs w) (resolve (cwd w) (tex_bld tb) @ r) = Some n"
    and absent: "fs_lookup (fs w) (resolve (cwd w) (tex_src tb) @ r) = None"
  shows "fs_lookup (fs (snd (copy_build_files e tb w))) (resolve (cwd w) (tex_bld tb) @ r) =
           Some n"
proof -
  let ?w1 = "print_frame ''COPYING BUILD FILES TO BLD DIRECTORY'' (INFOBLUE @ BOLD) w"
  let ?b = "resolve (cwd w) (tex_bld tb)"
  let ?s = "resolve (cwd w) (tex_src tb)"
  obtain x w2 where m: "makedir [tex_bld tb] True False ?w1 = (x, w2)"
    by (cases "makedir [tex_bld tb] True False ?w1")
  have c2: "cwd w2 = cwd w"
    using makedir_cwd [of "tex_bld tb" ?w1] m by simp
  have l2: "fs_lookup (fs w2) (?b @ r) = Some n"
    using makedir_lookup [of "tex_bld tb" ?w1 "?b @ r" n] only m by simp
  have ne: "?s @ r \<noteq> ?b" by (simp add: resolve_tex_dirs)
  have a2: "fs_lookup (fs w2) (?s @ r) = None"
    using m absent ne
    by (auto simp: makedir_single fs_lookup_Cons split: option.splits node.splits)
  show ?thesis
  proof (cases x)
    case (Inl err)
    with m l2 show ?thesis by (simp add: copy_build_files_def Let_def)
  next
    case (Inr d)
    let ?rs = "rsync_av (tex_src tb @ ''/'') (tex_bld tb) (cwd w2) (fs w2)"
    have ex: "exec e (rsync_command tb) (cwd w2) (fs w2) = Exited (fst ?rs) (snd ?rs)"
      by (simp add: prog) (simp add: rsync_command_def rsync_prog_def)
    have "fs_lookup (snd ?rs) (resolve (cwd w2) (tex_bld tb) @ r) =
          fs_lookup (fs w2) (resolve (cwd w2) (tex_bld tb) @ r)"
      using r a2 by (intro rsync_av_lookup) (simp_all add: resolve_trailing_sep c2)
    with l2 have "fs_lookup (snd ?rs) (?b @ r) = Some n" by (simp add: c2)
    with m Inr show ?thesis
      by (simp add: copy_build_files_def Let_def run_Exited [OF ex])
  qed
qed

theorem copy_build_files_additive_witness:
  "fs_lookup (fs (snd (copy_build_files (example_env 0 True) example_tb example_world)))
     [''tmp'', ''proj'', ''bld'', ''extra.aux''] = Some (File ''aux'') \<and>
   fs_lookup (fs (snd (copy_build_files (example_env 0 True) example_tb example_world)))
     [''tmp'', ''proj'', ''bld'', ''main.tex''] = Some (File ''Hello'')"
proof -
  let ?e = "example_env 0 True"
  have prog: "exec ?e (rsync_command example_tb) = rsync_prog (rsync_command example_tb)"
    by (simp add: example_env_def rsync_command_def)
  have r: "[''extra.aux''] \<noteq> []" by simp
  have only: "fs_lookup (fs example_world)
      (resolve (cwd example_world) (tex_bld example_tb) @ [''extra.aux'']) = Some (File ''aux'')"
    by code_simp
  have absent: "fs_lookup (fs example_world)
      (resolve (cwd example_world) (tex_src example_tb) @ [''extra.aux'']) = None"
    by code_simp
  have p: "resolve (cwd example_world) (tex_bld example_tb) @ [''extra.aux''] =
      [''tmp'', ''proj'', ''bld'', ''extra.aux'']"
    by code_simp
  have copied: "fs_lookup (fs (snd (copy_build_files ?e example_tb example_world)))
     [''tmp'', ''proj'', ''bld'', ''main.tex''] = Some (File ''Hello'')"
    by code_simp
  from copy_build_files_additive [OF prog r only absent] copied
  show ?thesis unfolding p by blast
qed

section \<open>Cleaning the build directory\<close>












lemma report_error_fs [simp]: "fs (snd (report_error st fl)) = fs (snd st)"
  by (cases fl) (simp add: report_error_def)

lemma report_error_flag [simp]: "fst (report_error st fl) = True"
  by (cases fl) (simp add: report_error_def)

lemma report_fold_fs [simp]: "fs (snd (foldl report_error st errs)) = fs (snd st)"
  by (induction errs arbitrary: st) simp_all






lemma rmtree_print_frame [simp]:
  "fst (rmtree e base (print_frame t m w)) = fst (rmtree e base w)"
  "fs (snd (rmtree e base (print_frame t m w))) = fs (snd (rmtree e base w))"
  by (simp_all add: rmtree_def Let_def split: option.splits node.splits)

lemma rmtree_console [simp]: "console (snd (rmtree e base w)) = console w"
  by (simp add: rmtree_def Let_def split: option.splits node.splits)








section \<open>The options of the command line\<close>

lemma copy_build_files_procs:
  "procs (snd (copy_build_files e tb w)) = procs w \<or>
   procs (snd (copy_build_files e tb w)) = procs w @ [(rsync_command tb, cwd w)]"
proof -
  let ?w1 = "print_frame ''COPYING BUILD FILES TO BLD DIRECTORY'' (INFOBLUE @ BOLD) w"
  obtain x w2 where m: "makedir [tex_bld tb] True False ?w1 = (x, w2)"
    by (cases "makedir [tex_bld tb] True False ?w1")
  have p2: "procs w2 = procs w" and c2: "cwd w2 = cwd w"
    using makedir_procs [of "tex_bld tb" ?w1] makedir_cwd [of "tex_bld tb" ?w1] m by simp_all
  show ?thesis
  proof (cases x)
    case (Inl err)
    with m p2 show ?thesis by (simp add: copy_build_files_def Let_def)
  next
    case (Inr d)
    obtain y w3 where r: "run e (rsync_command tb) False w2 = (y, w3)"
      by (cases "run e (rsync_command tb) False w2")
    have "procs w3 = procs w \<or> procs w3 = procs w @ [(rsync_command tb, cwd w)]"
      using run_procs [of e "rsync_command tb" False w2] r p2 c2 by (auto split: if_splits)
    with Inr m r show ?thesis
      by (cases y) (simp_all add: copy_build_files_def Let_def)
  qed
qed

lemma run_latexmk_procs_cases:
  "procs (snd (run_latexmk_in_bld_dir e tb doc (PList opts) w)) = procs w \<or>
   procs (snd (run_latexmk_in_bld_dir e tb doc (PList opts) w)) =
     procs w @ [(build_command doc opts, resolve (cwd w) (tex_bld tb))]"
proof (cases "os_chdir (tex_bld tb) w")
  case (Pair x w1)
  show ?thesis
  proof (cases x)
    case (Inl err)
    with Pair show ?thesis by (simp add: run_latexmk_procs)
  next
    case (Inr u)
    with Pair have "w1 = w\<lparr>cwd := resolve (cwd w) (tex_bld tb)\<rparr>"
      using os_chdir_Inr [of "tex_bld tb" w u w1] by simp
    with Pair Inr show ?thesis by (simp add: run_latexmk_procs run_procs)
  qed
qed

lemma build_document_list_as_pdf_filename:
  "fst (build_document e tb doc (PList l) PNone w) \<noteq> Inr True \<and>
   (procs (snd (build_document e tb doc (PList l) PNone w)) =
      procs (snd (copy_build_files e tb w)) \<or>
    procs (snd (build_document e tb doc (PList l) PNone w)) =
      procs (snd (copy_build_files e tb w)) @
      [(build_command doc [], resolve (cwd w) (tex_bld tb))])"
proof -
  obtain x w1 where s: "copy_build_files e tb w = (x, w1)"
    by (cases "copy_build_files e tb w")
  have c1: "cwd w1 = cwd w" using copy_build_files_cwd [of e tb w] s by simp
  show ?thesis
  proof (cases x)
    case (Inl err)
    with s show ?thesis
      by (cases err) (simp_all add: build_document_def Let_def)
  next
    case (Inr u)
    obtain y w2 where c: "run_latexmk_in_bld_dir e tb doc (PList []) w1 = (y, w2)"
      by (cases "run_latexmk_in_bld_dir e tb doc (PList []) w1")
    have p: "procs w2 = procs w1 \<or>
             procs w2 = procs w1 @ [(build_command doc [], resolve (cwd w) (tex_bld tb))]"
      using run_latexmk_procs_cases [of e tb doc "[]" w1] c c1 by simp
    show ?thesis
    proof (cases y)
      case (Inl err)
      with s Inr c p show ?thesis
        by (cases err) (auto simp: build_document_def Let_def)
    next
      case Inr2: (Inr u2)
      with s Inr c p show ?thesis
        by (auto simp: build_document_def Let_def copy_to_dst_def)
    qed
  qed
qed

text \<open>
  C3 does not hold of the code. \<open>run_args\<close> passes the options of the command line as
  the second positional argument of \<open>build_document\<close>, which is the name of the output
  file; the parameter of the options keeps its default. So, for every list of options
  given to the subcommand \<open>build\<close>: the compiler, if it is started, gets the fixed
  arguments and the document only, without any of the options, and the build never
  succeeds, since a list cannot be concatenated with the extension of the output file.
\<close>

theorem run_args_build_drops_options:
  assumes "cmd ns = ''build''" and "latexmk_opts ns = Some l"
  shows "run_args fuel e ns w =
           Some (and_then
             (build_document e \<lparr>tex_root = root ns\<rparr> (document ns) (PList l) PNone w)
             (\<lambda>b w'. (Inr (), w'))) \<and>
         fst (build_document e \<lparr>tex_root = root ns\<rparr> (document ns) (PList l) PNone w) \<noteq>
           Inr True \<and>
         (\<forall>c d. (c, d) \<in> set (procs (snd
              (build_document e \<lparr>tex_root = root ns\<rparr> (document ns) (PList l) PNone w))) \<longrightarrow>
            (c, d) \<in> set (procs w) \<or> c = rsync_command \<lparr>tex_root = root ns\<rparr> \<or>
            c = [''latexmk'', ''-halt-on-error'', ''-interaction=nonstopmode'',
                 ''-pdflatex=lualatex'', ''-pdf'', document ns @ ''.tex''])"
proof -
  let ?tb = "\<lparr>tex_root = root ns\<rparr>"
  have 1: "run_args fuel e ns w =
           Some (and_then (build_document e ?tb (document ns) (PList l) PNone w)
             (\<lambda>b w'. (Inr (), w')))"
    using assms by (simp add: run_args_def opts_val_def)
  note b = build_document_list_as_pdf_filename [of e ?tb "document ns" l w]
  note s = copy_build_files_procs [of e ?tb w]
  have 3: "(c, d) \<in> set (procs w) \<or> c = rsync_command ?tb \<or> c = build_command (document ns) []"
    if "(c, d) \<in> set (procs (snd (build_document e ?tb (document ns) (PList l) PNone w)))"
    for c d
    using that b s by auto
  from 1 b 3 show ?thesis by (simp add: build_command_def)
qed

theorem run_args_build_drops_options_witness:
  "run_args 0 (example_env 0 True)
     \<lparr>root = ''/tmp/proj'', cmd = ''build'', document = ''main'',
      latexmk_opts = Some [''-draftmode'']\<rparr> example_world =
   Some (and_then
     (build_document (example_env 0 True) example_tb ''main'' (PList [''-draftmode'']) PNone
        example_world)
     (\<lambda>b w'. (Inr (), w'))) \<and>
   fst (build_document (example_env 0 True) example_tb ''main'' (PList [''-draftmode'']) PNone
        example_world) = Inl TypeError \<and>
   procs (snd (build_document (example_env 0 True) example_tb ''main'' (PList [''-draftmode''])
        PNone example_world)) =
     [([''rsync'', ''-av'', ''/tmp/proj/src/'', ''/tmp/proj/bld''], [''home'']),
      ([''latexmk'', ''-halt-on-error'', ''-interaction=nonstopmode'', ''-pdflatex=lualatex'',
        ''-pdf'', ''main.tex''], [''tmp'', ''proj'', ''bld''])]"
proof -
  let ?ns = "\<lparr>root = ''/tmp/proj'', cmd = ''build'', document = ''main'',
      latexmk_opts = Some [''-draftmode'']\<rparr>"
  have h1: "cmd ?ns = ''build''" by simp
  have h2: "latexmk_opts ?ns = Some [''-draftmode'']" by simp
  have tb: "\<lparr>tex_root = root ?ns\<rparr> = example_tb" by (simp add: example_tb_def)
  have d: "document ?ns = ''main''" by simp
  have e1: "fst (build_document (example_env 0 True) example_tb ''main'' (PList [''-draftmode''])
        PNone example_world) = Inl TypeError"
    by code_simp
  have e2: "procs (snd (build_document (example_env 0 True) example_tb ''main''
        (PList [''-draftmode'']) PNone example_world)) =
     [([''rsync'', ''-av'', ''/tmp/proj/src/'', ''/tmp/proj/bld''], [''home'']),
      ([''latexmk'', ''-halt-on-error'', ''-interaction=nonstopmode'', ''-pdflatex=lualatex'',
        ''-pdf'', ''main.tex''], [''tmp'', ''proj'', ''bld''])]"
    by code_simp
  from run_args_build_drops_options [OF h1 h2, of 0 "example_env 0 True" example_world]
  have "run_args 0 (example_env 0 True) ?ns example_world =
          Some (and_then
            (build_document (example_env 0 True) example_tb ''main'' (PList [''-draftmode''])
               PNone example_world)
            (\<lambda>b w'. (Inr (), w')))"
    unfolding tb d by blast
  with e1 e2 show ?thesis by simp
qed

end
